theory Spec2Isabelle
  imports
    Complex_Main
    "HOL-Library.Multiset"
    "HOL-Library.Sublist"
    "HOL-Library.List_Lexorder"
    "HOL-Library.Char_ord"
begin

section \<open>Data model\<close>

text \<open>
  The two tables of \<^verbatim>\<open>server/src/db/schema.ts\<close>. A timestamp is the number of
  milliseconds since the epoch, an id is an integer, and an amount (a
  \<^verbatim>\<open>numeric(12,2)\<close> column, a JavaScript number in the handlers) is an integer number
  of hundredths, so \<^verbatim>\<open>-150.75\<close> is \<open>-15075\<close>. A nullable column is an \<open>option\<close>.
  Field names are the source's; \<^verbatim>\<open>id\<close> is \<open>doc_id\<close> and \<open>tx_id\<close>, and the fields of
  the input types carry a prefix, since one theory cannot hold two fields of one name.
\<close>

datatype processing_status = Pending | Processing | Completed | Failed

datatype transaction_type = Debit | Credit | Transfer | Fee | Other

record document =
  doc_id :: int
  filename :: string
  original_name :: string
  file_size :: int
  mime_type :: string
  upload_date :: int
  processing_status :: processing_status
  error_message :: "string option"

record transaction =
  tx_id :: int
  document_id :: int
  transaction_date :: int
  amount :: int
  description :: string
  account_number :: "string option"
  vendor_name :: "string option"
  transaction_type :: "transaction_type option"
  created_at :: int

text \<open>
  The database: both tables in insertion order, and the next value of each \<^verbatim>\<open>serial\<close>
  id column.
\<close>

record database =
  documents :: "document list"
  transactions :: "transaction list"
  next_document_id :: int
  next_transaction_id :: int

text \<open>
  What a handler throws: an \<^verbatim>\<open>Error\<close> object with its message, or any other value.
\<close>

datatype thrown = Error string | NonError

section \<open>Strings\<close>

text \<open>The decimal text of an integer, as a template literal prints a whole number.\<close>

definition digit_char :: "nat \<Rightarrow> char" where
  "digit_char n = ''0123456789'' ! n"

fun string_of_nat :: "nat \<Rightarrow> string" where
  "string_of_nat n =
     (if n < 10 then [digit_char n]
      else string_of_nat (n div 10) @ [digit_char (n mod 10)])"

declare string_of_nat.simps [simp del]

definition string_of_int :: "int \<Rightarrow> string" where
  "string_of_int i =
     (if i < 0 then CHR ''-'' # string_of_nat (nat (- i)) else string_of_nat (nat i))"

text \<open>\<^verbatim>\<open>String.prototype.includes\<close>: the argument occurs as a contiguous run.\<close>

fun startsWith :: "string \<Rightarrow> string \<Rightarrow> bool" where
  "startsWith s [] = True"
| "startsWith [] (c # cs) = False"
| "startsWith (x # xs) (c # cs) = (x = c \<and> startsWith xs cs)"

fun str_includes :: "string \<Rightarrow> string \<Rightarrow> bool" where
  "str_includes [] sub = (sub = [])"
| "str_includes (x # xs) sub = (startsWith (x # xs) sub \<or> str_includes xs sub)"

section \<open>Statements on the tables\<close>

text \<open>
  \<^verbatim>\<open>db.update(documentsTable).set({...}).where(eq(documentsTable.id, i))\<close>: every row
  with that id is rewritten, no row when there is none.
\<close>

definition update_documents :: "int \<Rightarrow> (document \<Rightarrow> document) \<Rightarrow> database \<Rightarrow> database" where
  "update_documents i f db =
     db\<lparr>documents := map (\<lambda>d. if doc_id d = i then f d else d) (documents db)\<rparr>"

text \<open>\<^verbatim>\<open>db.select().from(documentsTable).where(eq(documentsTable.id, i))\<close>.\<close>

definition select_documents :: "int \<Rightarrow> database \<Rightarrow> document list" where
  "select_documents i db = filter (\<lambda>d. doc_id d = i) (documents db)"

text \<open>
  \<^verbatim>\<open>db.insert(transactionsTable).values({...}).returning()\<close>: the row takes the next
  serial id and \<^verbatim>\<open>created_at\<close> defaults to the time \<open>now\<close> of the statement.
\<close>

definition insert_transaction ::
  "int \<Rightarrow> int \<Rightarrow> int \<Rightarrow> int \<Rightarrow> string \<Rightarrow> string option \<Rightarrow> string option \<Rightarrow>
   transaction_type option \<Rightarrow> database \<Rightarrow> transaction \<times> database" where
  "insert_transaction now did date amt descr acct vendor ty db =
     (let row = \<lparr>tx_id = next_transaction_id db, document_id = did, transaction_date = date,
                 amount = amt, description = descr, account_number = acct,
                 vendor_name = vendor, transaction_type = ty, created_at = now\<rparr>
      in (row, db\<lparr>transactions := transactions db @ [row],
                  next_transaction_id := next_transaction_id db + 1\<rparr>))"

section \<open>processDocument\<close>

text \<open>\<^verbatim>\<open>ExtractedTransactionData\<close> of \<^verbatim>\<open>process_document.ts\<close>.\<close>

record extracted =
  ex_transaction_date :: int
  ex_amount :: int
  ex_description :: string
  ex_account_number :: "string option"
  ex_vendor_name :: "string option"
  ex_transaction_type :: "transaction_type option"

text \<open>
  The two mock rows; \<^verbatim>\<open>new Date('2024-01-15')\<close> is 1705276800000 ms and the next day
  is 86400000 ms later.
\<close>

definition mockTransactions :: "extracted list" where
  "mockTransactions =
     [\<lparr>ex_transaction_date = 1705276800000, ex_amount = - 15075,
       ex_description = ''ATM Withdrawal'', ex_account_number = Some ''****1234'',
       ex_vendor_name = Some ''Chase ATM'', ex_transaction_type = Some Debit\<rparr>,
      \<lparr>ex_transaction_date = 1705363200000, ex_amount = 250000,
       ex_description = ''Direct Deposit Salary'', ex_account_number = Some ''****1234'',
       ex_vendor_name = Some ''ACME Corp'', ex_transaction_type = Some Credit\<rparr>]"

definition extractTransactionsFromDocument :: "document \<Rightarrow> thrown + extracted list" where
  "extractTransactionsFromDocument doc =
     (if str_includes (filename doc) ''empty'' then Inr []
      else if str_includes (filename doc) ''error''
        then Inl (Error ''PDF parsing failed - corrupted file'')
      else Inr mockTransactions)"

text \<open>
  The loop of step 4: one insert per extracted row, in order, each with the id the
  handler was called with. The result is the saved rows and the database after each
  insert.
\<close>

definition insert_extracted :: "int \<Rightarrow> int \<Rightarrow> extracted \<Rightarrow> database \<Rightarrow> transaction \<times> database" where
  "insert_extracted now documentId x db =
     insert_transaction now documentId (ex_transaction_date x) (ex_amount x)
       (ex_description x) (ex_account_number x) (ex_vendor_name x) (ex_transaction_type x) db"

fun save_transactions ::
  "int \<Rightarrow> int \<Rightarrow> database \<Rightarrow> extracted list \<Rightarrow> transaction list \<times> database list" where
  "save_transactions now documentId db [] = ([], [])"
| "save_transactions now documentId db (x # xs) =
     (let (row, db') = insert_extracted now documentId x db;
          (rows, dbs) = save_transactions now documentId db' xs
      in (row # rows, db' # dbs))"

text \<open>The message the \<^verbatim>\<open>catch\<close> block stores.\<close>

definition catch_message :: "thrown \<Rightarrow> string" where
  "catch_message e = (case e of Error m \<Rightarrow> m | NonError \<Rightarrow> ''Unknown processing error'')"

definition set_status ::
  "int \<Rightarrow> processing_status \<Rightarrow> string option \<Rightarrow> database \<Rightarrow> database" where
  "set_status i st msg db =
     update_documents i (\<lambda>d. d\<lparr>processing_status := st, error_message := msg\<rparr>) db"

text \<open>
  \<open>processDocument_run\<close> is the handler with its history: the value returned or thrown,
  and the database after each write statement, in order. The \<^verbatim>\<open>catch\<close> block
  writes the failed status and rethrows. \<open>now\<close> is the time of the run.
\<close>

definition processDocument_run ::
  "int \<Rightarrow> int \<Rightarrow> database \<Rightarrow> (thrown + transaction list) \<times> database list" where
  "processDocument_run now documentId db =
     (case select_documents documentId db of
        [] \<Rightarrow>
          (let e = Error (''Document with ID '' @ string_of_int documentId @ '' not found'')
           in (Inl e, [set_status documentId Failed (Some (catch_message e)) db]))
      | doc # _ \<Rightarrow>
          (let db1 = set_status documentId Processing None db
           in case extractTransactionsFromDocument doc of
                Inl e \<Rightarrow> (Inl e, [db1, set_status documentId Failed (Some (catch_message e)) db1])
              | Inr extractedTransactions \<Rightarrow>
                  (let (savedTransactions, dbs) =
                         save_transactions now documentId db1 extractedTransactions;
                       db2 = last (db1 # dbs)
                   in (Inr savedTransactions,
                       db1 # dbs @ [set_status documentId Completed None db2]))))"

definition processDocument ::
  "int \<Rightarrow> int \<Rightarrow> database \<Rightarrow> (thrown + transaction list) \<times> database" where
  "processDocument now documentId db =
     (let (r, h) = processDocument_run now documentId db in (r, last (db # h)))"

section \<open>uploadDocument\<close>

record UploadDocumentInput =
  ud_filename :: string
  ud_original_name :: string
  ud_file_size :: int
  ud_mime_type :: string

text \<open>
  \<^verbatim>\<open>db.insert(documentsTable).values({...}).returning()\<close> with the five columns the
  handler gives: the id is the next serial value, \<^verbatim>\<open>upload_date\<close> defaults to the
  time \<open>now\<close> of the statement and \<^verbatim>\<open>error_message\<close> to null.
\<close>

definition insert_document ::
  "int \<Rightarrow> string \<Rightarrow> string \<Rightarrow> int \<Rightarrow> string \<Rightarrow> processing_status \<Rightarrow> database \<Rightarrow>
   document \<times> database" where
  "insert_document now fname oname fsize mime st db =
     (let row = \<lparr>doc_id = next_document_id db, filename = fname, original_name = oname,
                 file_size = fsize, mime_type = mime, upload_date = now,
                 processing_status = st, error_message = None\<rparr>
      in (row, db\<lparr>documents := documents db @ [row],
                  next_document_id := next_document_id db + 1\<rparr>))"

text \<open>
  \<open>timestamp\<close> is the value of \<^verbatim>\<open>Date.now()\<close> and \<open>random36\<close> the text of
  \<^verbatim>\<open>Math.random().toString(36)\<close>, both given by the environment;
  \<^verbatim>\<open>substring(2, 8)\<close> keeps at most six characters after the first two.
\<close>

definition uploadDocument ::
  "int \<Rightarrow> string \<Rightarrow> int \<Rightarrow> UploadDocumentInput \<Rightarrow> database \<Rightarrow> document \<times> database" where
  "uploadDocument timestamp random36 now input db =
     (let randomSuffix = take 6 (drop 2 random36);
          generatedFilename =
            ''doc_'' @ string_of_int timestamp @ ''_'' @ randomSuffix @ ''.pdf''
      in insert_document now generatedFilename (ud_original_name input) (ud_file_size input)
           (ud_mime_type input) Pending db)"

section \<open>updateDocumentStatus\<close>

text \<open>
  The optional and nullable \<^verbatim>\<open>error_message\<close> of the input: \<open>None\<close> is
  \<^verbatim>\<open>undefined\<close>, \<open>Some None\<close> is \<^verbatim>\<open>null\<close>.
\<close>

record UpdateDocumentStatusInput =
  uds_id :: int
  uds_processing_status :: processing_status
  uds_error_message :: "string option option"

definition updateValues :: "UpdateDocumentStatusInput \<Rightarrow> document \<Rightarrow> document" where
  "updateValues input =
     (if uds_processing_status input = Failed then
        (case uds_error_message input of
           Some m \<Rightarrow> (\<lambda>d. d\<lparr>processing_status := uds_processing_status input,
                              error_message := m\<rparr>)
         | None \<Rightarrow> (\<lambda>d. d\<lparr>processing_status := uds_processing_status input\<rparr>))
      else (\<lambda>d. d\<lparr>processing_status := uds_processing_status input, error_message := None\<rparr>))"

definition updateDocumentStatus ::
  "UpdateDocumentStatusInput \<Rightarrow> database \<Rightarrow> (thrown + document) \<times> database" where
  "updateDocumentStatus input db =
     (let db' = update_documents (uds_id input) (updateValues input) db
      in case select_documents (uds_id input) db' of
           [] \<Rightarrow> (Inl (Error (''Document with id '' @ string_of_int (uds_id input)
                               @ '' not found'')), db')
         | doc # _ \<Rightarrow> (Inr doc, db'))"

section \<open>createTransaction\<close>

record CreateTransactionInput =
  ct_document_id :: int
  ct_transaction_date :: int
  ct_amount :: int
  ct_description :: string
  ct_account_number :: "string option"
  ct_vendor_name :: "string option"
  ct_transaction_type :: "transaction_type option"

definition createTransaction ::
  "int \<Rightarrow> CreateTransactionInput \<Rightarrow> database \<Rightarrow> (thrown + transaction) \<times> database" where
  "createTransaction now input db =
     (case select_documents (ct_document_id input) db of
        [] \<Rightarrow> (Inl (Error (''Document with ID '' @ string_of_int (ct_document_id input)
                            @ '' not found'')), db)
      | _ # _ \<Rightarrow>
          (let (row, db') = insert_transaction now (ct_document_id input)
                              (ct_transaction_date input) (ct_amount input)
                              (ct_description input) (ct_account_number input)
                              (ct_vendor_name input) (ct_transaction_type input) db
           in (Inr row, db')))"

section \<open>updateTransaction\<close>

record UpdateTransactionInput =
  ut_id :: int
  ut_transaction_date :: "int option"
  ut_amount :: "int option"
  ut_description :: "string option"
  ut_account_number :: "string option option"
  ut_vendor_name :: "string option option"
  ut_transaction_type :: "transaction_type option option"

text \<open>
  \<^verbatim>\<open>x || d\<close> on an optional string: \<^verbatim>\<open>undefined\<close> and the empty string are
  falsy. On an optional and nullable string \<^verbatim>\<open>null\<close> is falsy too.
\<close>

definition or_string :: "string option \<Rightarrow> string \<Rightarrow> string" where
  "or_string x d = (case x of None \<Rightarrow> d | Some s \<Rightarrow> if s = [] then d else s)"

definition or_null_string :: "string option option \<Rightarrow> string option" where
  "or_null_string x =
     (case x of None \<Rightarrow> None | Some None \<Rightarrow> None
      | Some (Some s) \<Rightarrow> if s = [] then None else Some s)"

definition or_null :: "'a option option \<Rightarrow> 'a option" where
  "or_null x = (case x of None \<Rightarrow> None | Some v \<Rightarrow> v)"

text \<open>
  The handler as it stands in \<^verbatim>\<open>update_transaction.ts\<close>: it issues no statement,
  so the database is returned as it was; \<open>now\<close> is \<^verbatim>\<open>new Date()\<close>.
\<close>

definition updateTransaction ::
  "int \<Rightarrow> UpdateTransactionInput \<Rightarrow> database \<Rightarrow> transaction \<times> database" where
  "updateTransaction now input db =
     (\<lparr>tx_id = ut_id input,
       document_id = 1,
       transaction_date = (case ut_transaction_date input of None \<Rightarrow> now | Some d \<Rightarrow> d),
       amount = (case ut_amount input of None \<Rightarrow> 0 | Some a \<Rightarrow> if a = 0 then 0 else a),
       description = or_string (ut_description input) ''Placeholder description'',
       account_number = or_null_string (ut_account_number input),
       vendor_name = or_null_string (ut_vendor_name input),
       transaction_type = or_null (ut_transaction_type input),
       created_at = now\<rparr>, db)"

text \<open>
  What the comment in the handler asks for, written from its five points: the row with
  the input's id takes the fields the input provides and keeps the others.
\<close>

definition apply_update :: "UpdateTransactionInput \<Rightarrow> transaction \<Rightarrow> transaction" where
  "apply_update input t =
     t\<lparr>transaction_date := (case ut_transaction_date input of None \<Rightarrow> transaction_date t | Some d \<Rightarrow> d),
       amount := (case ut_amount input of None \<Rightarrow> amount t | Some a \<Rightarrow> a),
       description := (case ut_description input of None \<Rightarrow> description t | Some s \<Rightarrow> s),
       account_number := (case ut_account_number input of None \<Rightarrow> account_number t | Some v \<Rightarrow> v),
       vendor_name := (case ut_vendor_name input of None \<Rightarrow> vendor_name t | Some v \<Rightarrow> v),
       transaction_type := (case ut_transaction_type input of None \<Rightarrow> transaction_type t | Some v \<Rightarrow> v)\<rparr>"

section \<open>deleteTransaction and the cascade\<close>

text \<open>
  Modelled from the spec: the handler \<^verbatim>\<open>handlers/delete_transaction.ts\<close> is missing
  from the sources; only its test and its route are there. "Deleting a transaction
  removes exactly one row": the row with the given id is deleted and
  \<^verbatim>\<open>{ success: true }\<close> is returned; the test expects the error
  \<^verbatim>\<open>Transaction with id <id> not found\<close> when there is no such row.
\<close>

definition deleteTransaction :: "int \<Rightarrow> database \<Rightarrow> (thrown + bool) \<times> database" where
  "deleteTransaction i db =
     (if \<exists>t \<in> set (transactions db). tx_id t = i
      then (Inr True, db\<lparr>transactions := filter (\<lambda>t. tx_id t \<noteq> i) (transactions db)\<rparr>)
      else (Inl (Error (''Transaction with id '' @ string_of_int i @ '' not found'')), db))"

text \<open>
  \<^verbatim>\<open>db.delete(documentsTable).where(eq(documentsTable.id, i))\<close>, as the tests issue
  it. The column \<^verbatim>\<open>document_id\<close> is declared with \<^verbatim>\<open>onDelete: 'cascade'\<close>, so the
  rows of \<^verbatim>\<open>transactions\<close> that reference a deleted document go with it.
\<close>

definition delete_document :: "int \<Rightarrow> database \<Rightarrow> database" where
  "delete_document i db =
     db\<lparr>documents := filter (\<lambda>d. doc_id d \<noteq> i) (documents db),
        transactions := filter (\<lambda>t. document_id t \<noteq> i) (transactions db)\<rparr>"

section \<open>Ordered reads\<close>








section \<open>searchTransactions\<close>




datatype sort_order = Asc | Desc








section \<open>Properties stated over the model\<close>

text \<open>What is stored for the rows with id \<open>i\<close>: status and error message.\<close>

definition stored_status :: "int \<Rightarrow> database \<Rightarrow> (processing_status \<times> string option) list" where
  "stored_status i db =
     map (\<lambda>d. (processing_status d, error_message d)) (select_documents i db)"


text \<open>
  The statements that write: the mutations of \<^verbatim>\<open>appRouter\<close> with the values the
  environment gives them, and the deletion of a document. The queries
  (\<open>getDocuments\<close>, \<open>getTransactions\<close>, \<open>getDocumentTransactions\<close>,
  \<open>searchTransactions\<close>) return no database.
\<close>

datatype operation =
    UploadDocument int string int UploadDocumentInput
  | UpdateDocumentStatus UpdateDocumentStatusInput
  | ProcessDocument int int
  | CreateTransaction int CreateTransactionInput
  | UpdateTransaction int UpdateTransactionInput
  | DeleteTransaction int
  | DeleteDocument int

fun run :: "operation \<Rightarrow> database \<Rightarrow> database" where
  "run (UploadDocument timestamp random36 now input) db =
     snd (uploadDocument timestamp random36 now input db)"
| "run (UpdateDocumentStatus input) db = snd (updateDocumentStatus input db)"
| "run (ProcessDocument now documentId) db = snd (processDocument now documentId db)"
| "run (CreateTransaction now input) db = snd (createTransaction now input db)"
| "run (UpdateTransaction now input) db = snd (updateTransaction now input db)"
| "run (DeleteTransaction i) db = snd (deleteTransaction i db)"
| "run (DeleteDocument i) db = delete_document i db"






section \<open>Example databases\<close>

text \<open>
  Three documents as the tests of \<^verbatim>\<open>processDocument\<close> create them, the second with
  both marker words in its file name, and no transaction yet.
\<close>

definition doc_statement :: document where
  "doc_statement =
     \<lparr>doc_id = 1, filename = ''test-document.pdf'', original_name = ''Bank Statement.pdf'',
      file_size = 1024000, mime_type = ''application/pdf'', upload_date = 1000,
      processing_status = Pending, error_message = None\<rparr>"

definition doc_empty_error :: document where
  "doc_empty_error =
     \<lparr>doc_id = 2, filename = ''empty-error.pdf'', original_name = ''Empty Statement.pdf'',
      file_size = 512000, mime_type = ''application/pdf'', upload_date = 2000,
      processing_status = Pending, error_message = None\<rparr>"

definition doc_error :: document where
  "doc_error =
     \<lparr>doc_id = 3, filename = ''error-document.pdf'',
      original_name = ''Corrupted Statement.pdf'', file_size = 256000,
      mime_type = ''application/pdf'', upload_date = 3000,
      processing_status = Completed, error_message = None\<rparr>"

definition db_docs :: database where
  "db_docs =
     \<lparr>documents = [doc_statement, doc_empty_error, doc_error], transactions = [],
      next_document_id = 4, next_transaction_id = 1\<rparr>"

text \<open>The same documents with three transactions, stored out of date order.\<close>

definition tx_grocery :: transaction where
  "tx_grocery =
     \<lparr>tx_id = 1, document_id = 2, transaction_date = 300, amount = - 4599,
      description = ''Grocery store purchase'', account_number = Some ''1234'',
      vendor_name = Some ''Walmart'', transaction_type = Some Debit, created_at = 10\<rparr>"

definition tx_atm :: transaction where
  "tx_atm =
     \<lparr>tx_id = 2, document_id = 1, transaction_date = 100, amount = - 10000,
      description = ''ATM withdrawal'', account_number = Some ''5678'',
      vendor_name = None, transaction_type = Some Debit, created_at = 20\<rparr>"

definition tx_salary :: transaction where
  "tx_salary =
     \<lparr>tx_id = 3, document_id = 1, transaction_date = 200, amount = 250000,
      description = ''Salary abc'', account_number = None,
      vendor_name = Some ''ACME Corp'', transaction_type = Some Credit, created_at = 30\<rparr>"

definition db_tx :: database where
  "db_tx =
     \<lparr>documents = [doc_statement, doc_empty_error, doc_error],
      transactions = [tx_grocery, tx_atm, tx_salary],
      next_document_id = 4, next_transaction_id = 4\<rparr>"









definition new_description :: UpdateTransactionInput where
  "new_description =
     \<lparr>ut_id = 1, ut_transaction_date = None, ut_amount = None,
      ut_description = Some ''Corrected'', ut_account_number = None, ut_vendor_name = None,
      ut_transaction_type = None\<rparr>"






section \<open>Facts about the statements\<close>




lemma transactions_set_status [simp]: "transactions (set_status i st msg db) = transactions db"
  by (simp add: set_status_def update_documents_def)

lemma next_tx_set_status [simp]:
  "next_transaction_id (set_status i st msg db) = next_transaction_id db"
  by (simp add: set_status_def update_documents_def)

lemma select_update_documents:
  assumes "\<And>d. doc_id (f d) = doc_id d"
  shows "select_documents i (update_documents i f db) = map f (select_documents i db)"
proof -
  have "filter (\<lambda>d. doc_id d = i) (map (\<lambda>d. if doc_id d = i then f d else d) xs) =
        map f (filter (\<lambda>d. doc_id d = i) xs)" for xs
    by (induction xs) (simp_all add: assms)
  then show ?thesis
    by (simp add: select_documents_def update_documents_def)
qed

lemma others_update_documents:
  assumes "\<And>d. doc_id (f d) = doc_id d"
  shows "filter (\<lambda>d. doc_id d \<noteq> i) (documents (update_documents i f db)) =
         filter (\<lambda>d. doc_id d \<noteq> i) (documents db)"
proof -
  have "filter (\<lambda>d. doc_id d \<noteq> i) (map (\<lambda>d. if doc_id d = i then f d else d) xs) =
        filter (\<lambda>d. doc_id d \<noteq> i) xs" for xs
    by (induction xs) (simp_all add: assms)
  then show ?thesis
    by (simp add: update_documents_def)
qed

lemma select_set_status:
  "select_documents i (set_status i st msg db) =
     map (\<lambda>d. d\<lparr>processing_status := st, error_message := msg\<rparr>) (select_documents i db)"
  unfolding set_status_def by (rule select_update_documents) simp

lemma others_set_status:
  "filter (\<lambda>d. doc_id d \<noteq> i) (documents (set_status i st msg db)) =
     filter (\<lambda>d. doc_id d \<noteq> i) (documents db)"
  unfolding set_status_def by (rule others_update_documents) simp

lemma select_documents_cong:
  "documents st = documents st' \<Longrightarrow> select_documents i st = select_documents i st'"
  by (simp add: select_documents_def)


lemma snd_save_Cons:
  "snd (save_transactions now i db (x # xs)) =
     snd (insert_extracted now i x db) #
     snd (save_transactions now i (snd (insert_extracted now i x db)) xs)"
  by (simp add: case_prod_beta)

lemma insert_extracted_simps:
  "documents (snd (insert_extracted now i x db)) = documents db"
  "transactions (snd (insert_extracted now i x db)) =
     transactions db @ [fst (insert_extracted now i x db)]"
  "document_id (fst (insert_extracted now i x db)) = i"
  by (simp_all add: insert_extracted_def insert_transaction_def Let_def)

lemma save_transactions_documents:
  "st \<in> set (snd (save_transactions now i db xs)) \<Longrightarrow> documents st = documents db"
proof (induction xs arbitrary: db)
  case Nil
  then show ?case by simp
next
  case (Cons x xs)
  then show ?case
    unfolding snd_save_Cons by (auto simp: insert_extracted_simps)
qed



lemma last_documents:
  "documents (last (db # snd (save_transactions now i db xs))) = documents db"
proof (cases "snd (save_transactions now i db xs) = []")
  case True
  then show ?thesis by simp
next
  case False
  then have "last (db # snd (save_transactions now i db xs))
               \<in> set (snd (save_transactions now i db xs))"
    by simp
  then show ?thesis by (rule save_transactions_documents)
qed


lemma stored_status_set_status:
  "stored_status i (set_status i st msg db) = map (\<lambda>_. (st, msg)) (select_documents i db)"
  by (simp add: stored_status_def select_set_status o_def)

lemma stored_status_cong:
  "documents st = documents st' \<Longrightarrow> stored_status i st = stored_status i st'"
  by (simp add: stored_status_def select_documents_def)

lemma example_selects:
  "select_documents 1 db_docs = [doc_statement]"
  "select_documents 2 db_docs = [doc_empty_error]"
  "select_documents 3 db_docs = [doc_error]"
  "select_documents 99 db_docs = []"
  by (simp_all add: select_documents_def db_docs_def doc_statement_def doc_empty_error_def
      doc_error_def)

section \<open>The claims\<close>

subsection \<open>processDocument: extraction and status\<close>

text \<open>
  C1. For a document that exists, the extraction step of \<open>processDocument\<close> goes by
  the file name: with "empty" in it the result is the empty list; otherwise with
  "error" in it the handler throws; otherwise the result is the two mock transactions
  (-150.75 'ATM Withdrawal' debit and 2500.00 'Direct Deposit Salary' credit), each
  inserted with the id the handler was given. The rows returned are the rows added to
  the table.
\<close>

theorem processDocument_extraction_by_filename:
  assumes "select_documents documentId db = doc # rest"
  shows "fst (processDocument now documentId db) =
           (if str_includes (filename doc) ''empty'' then Inr []
            else if str_includes (filename doc) ''error''
              then Inl (Error ''PDF parsing failed - corrupted file'')
            else Inr [\<lparr>tx_id = next_transaction_id db, document_id = documentId,
                       transaction_date = 1705276800000, amount = - 15075,
                       description = ''ATM Withdrawal'', account_number = Some ''****1234'',
                       vendor_name = Some ''Chase ATM'', transaction_type = Some Debit,
                       created_at = now\<rparr>,
                      \<lparr>tx_id = next_transaction_id db + 1, document_id = documentId,
                       transaction_date = 1705363200000, amount = 250000,
                       description = ''Direct Deposit Salary'',
                       account_number = Some ''****1234'', vendor_name = Some ''ACME Corp'',
                       transaction_type = Some Credit, created_at = now\<rparr>]) \<and>
         transactions (snd (processDocument now documentId db)) =
           transactions db @
           (case fst (processDocument now documentId db) of Inl e \<Rightarrow> [] | Inr saved \<Rightarrow> saved)"
  using assms
  by (simp add: processDocument_def processDocument_run_def extractTransactionsFromDocument_def
      mockTransactions_def insert_extracted_def insert_transaction_def Let_def)

theorem processDocument_extraction_by_filename_witness:
  "select_documents 1 db_docs = [doc_statement] \<and>
   fst (processDocument 5000 1 db_docs) =
     Inr [\<lparr>tx_id = 1, document_id = 1, transaction_date = 1705276800000, amount = - 15075,
           description = ''ATM Withdrawal'', account_number = Some ''****1234'',
           vendor_name = Some ''Chase ATM'', transaction_type = Some Debit,
           created_at = 5000\<rparr>,
          \<lparr>tx_id = 2, document_id = 1, transaction_date = 1705363200000, amount = 250000,
           description = ''Direct Deposit Salary'', account_number = Some ''****1234'',
           vendor_name = Some ''ACME Corp'', transaction_type = Some Credit,
           created_at = 5000\<rparr>] \<and>
   select_documents 2 db_docs = [doc_empty_error] \<and>
   fst (processDocument 5000 2 db_docs) = Inr [] \<and>
   select_documents 3 db_docs = [doc_error] \<and>
   fst (processDocument 5000 3 db_docs) = Inl (Error ''PDF parsing failed - corrupted file'')"
proof -
  have n: "next_transaction_id db_docs = 1" by (simp add: db_docs_def)
  show ?thesis
    using processDocument_extraction_by_filename [OF example_selects(1), of 5000]
      processDocument_extraction_by_filename [OF example_selects(2), of 5000]
      processDocument_extraction_by_filename [OF example_selects(3), of 5000]
      example_selects n
    by (simp add: doc_statement_def doc_empty_error_def doc_error_def)
qed

text \<open>
  C2. For a document that exists, the first write of \<open>processDocument\<close> stores
  'processing' with a null error message; every write up to the last leaves that
  status; the last write stores 'completed' with a null error message when the handler
  returns and 'failed' when it throws. The database the handler leaves is the one after
  the last write, and no write touches a row of another document.
\<close>

theorem processDocument_status_progression:
  assumes "select_documents documentId db = doc # rest"
  shows "\<exists>first middle final.
           snd (processDocument_run now documentId db) = first # middle @ [final] \<and>
           snd (processDocument now documentId db) = final \<and>
           stored_status documentId first = map (\<lambda>_. (Processing, None)) (doc # rest) \<and>
           (\<forall>st \<in> set middle.
              stored_status documentId st = map (\<lambda>_. (Processing, None)) (doc # rest)) \<and>
           (case fst (processDocument now documentId db) of
              Inr saved \<Rightarrow>
                stored_status documentId final = map (\<lambda>_. (Completed, None)) (doc # rest)
            | Inl e \<Rightarrow>
                map fst (stored_status documentId final) = map (\<lambda>_. Failed) (doc # rest)) \<and>
           (\<forall>st \<in> set (first # middle @ [final]).
              filter (\<lambda>d. doc_id d \<noteq> documentId) (documents st) =
                filter (\<lambda>d. doc_id d \<noteq> documentId) (documents db))"
proof (cases "extractTransactionsFromDocument doc")
  case (Inl e)
  let ?db1 = "set_status documentId Processing None db"
  let ?dbf = "set_status documentId Failed (Some (catch_message e)) ?db1"
  have run: "processDocument_run now documentId db = (Inl e, [?db1, ?dbf])"
    using assms Inl by (simp add: processDocument_run_def Let_def)
  show ?thesis
    apply (rule exI [of _ ?db1], rule exI [of _ "[]"], rule exI [of _ ?dbf])
    apply (simp add: run processDocument_def stored_status_set_status select_set_status
        others_set_status assms o_def)
    done
next
  case (Inr ex)
  let ?db1 = "set_status documentId Processing None db"
  let ?s = "save_transactions now documentId ?db1 ex"
  let ?db2 = "last (?db1 # snd ?s)"
  let ?db3 = "set_status documentId Completed None ?db2"
  have run: "processDocument_run now documentId db = (Inr (fst ?s), ?db1 # snd ?s @ [?db3])"
    using assms Inr by (simp add: processDocument_run_def Let_def split: prod.splits)
  have mid: "documents st = documents ?db1" if "st \<in> set (snd ?s)" for st
    using that by (rule save_transactions_documents)
  have d2: "documents ?db2 = documents ?db1" by (rule last_documents)
  have fin: "snd (processDocument now documentId db) = ?db3"
    by (simp add: run processDocument_def)
  have res: "fst (processDocument now documentId db) = Inr (fst ?s)"
    by (simp add: run processDocument_def)
  have s1: "stored_status documentId ?db1 = map (\<lambda>_. (Processing, None)) (doc # rest)"
    by (simp add: stored_status_set_status assms)
  have sm: "stored_status documentId st = map (\<lambda>_. (Processing, None)) (doc # rest)"
    if "st \<in> set (snd ?s)" for st
    using s1 stored_status_cong [OF mid [OF that]] by simp
  have "select_documents documentId ?db2 = select_documents documentId ?db1"
    by (rule select_documents_cong [OF d2])
  then have s3: "stored_status documentId ?db3 = map (\<lambda>_. (Completed, None)) (doc # rest)"
    by (simp add: stored_status_set_status select_set_status assms del: last.simps)
  have o1: "filter (\<lambda>d. doc_id d \<noteq> documentId) (documents ?db1) =
            filter (\<lambda>d. doc_id d \<noteq> documentId) (documents db)"
    by (rule others_set_status)
  have om: "filter (\<lambda>d. doc_id d \<noteq> documentId) (documents st) =
            filter (\<lambda>d. doc_id d \<noteq> documentId) (documents db)"
    if "st \<in> set (snd ?s)" for st
    using o1 mid [OF that] by simp
  have o3: "filter (\<lambda>d. doc_id d \<noteq> documentId) (documents ?db3) =
            filter (\<lambda>d. doc_id d \<noteq> documentId) (documents db)"
    using others_set_status [of documentId Completed None ?db2] d2 o1 by simp
  have "snd (processDocument_run now documentId db) = ?db1 # snd ?s @ [?db3]"
    by (simp add: run)
  with fin res s1 sm s3 o1 om o3 show ?thesis
    by (intro exI [of _ ?db1] exI [of _ "snd ?s"] exI [of _ ?db3]) auto
qed

theorem processDocument_status_progression_witness:
  "select_documents 1 db_docs = [doc_statement] \<and>
   stored_status 1 db_docs = [(Pending, None)] \<and>
   map (stored_status 1) (snd (processDocument_run 5000 1 db_docs)) =
     [[(Processing, None)], [(Processing, None)], [(Processing, None)], [(Completed, None)]] \<and>
   select_documents 3 db_docs = [doc_error] \<and>
   map (stored_status 3) (snd (processDocument_run 5000 3 db_docs)) =
     [[(Processing, None)], [(Failed, Some ''PDF parsing failed - corrupted file'')]]"
  using processDocument_status_progression [OF example_selects(1), of 5000]
    processDocument_status_progression [OF example_selects(3), of 5000]
  by (simp add: example_selects processDocument_run_def extractTransactionsFromDocument_def
      doc_statement_def doc_error_def mockTransactions_def stored_status_set_status
      stored_status_def catch_message_def insert_extracted_def insert_transaction_def
      select_set_status select_documents_cong [of _ "set_status _ _ _ _"] Let_def)

subsection \<open>processDocument: errors\<close>








subsection \<open>updateDocumentStatus\<close>





subsection \<open>uploadDocument\<close>






subsection \<open>deleteTransaction\<close>

lemma filter_neq_distinct:
  assumes "distinct (map f (before @ t # after))"
  shows "filter (\<lambda>x. f x \<noteq> f t) (before @ t # after) = before @ after"
proof -
  have "\<forall>x \<in> set before \<union> set after. f x \<noteq> f t"
    using assms by (auto simp: image_iff)
  then show ?thesis by (simp add: filter_id_conv)
qed

text \<open>
  C8. With the primary key (no two transactions share an id), \<open>deleteTransaction\<close>
  on an id that exists removes exactly the row with that id: the rows before and after
  it stay, in order, the documents stay, the count drops by one, and the result is
  success. On an id that no row has it throws \<^verbatim>\<open>Transaction with id <id> not found\<close>
  and the database is as before.
\<close>

theorem deleteTransaction_removes_one_row:
  assumes "distinct (map tx_id (transactions db))"
  shows "(transactions db = before @ t # after \<and> tx_id t = i \<longrightarrow>
            deleteTransaction i db = (Inr True, db\<lparr>transactions := before @ after\<rparr>) \<and>
            documents (snd (deleteTransaction i db)) = documents db \<and>
            length (transactions (snd (deleteTransaction i db))) + 1 =
              length (transactions db)) \<and>
         (i \<notin> tx_id ` set (transactions db) \<longrightarrow>
            deleteTransaction i db =
              (Inl (Error (''Transaction with id '' @ string_of_int i @ '' not found'')), db))"
proof (intro conjI impI)
  assume a: "transactions db = before @ t # after \<and> tx_id t = i"
  then have "filter (\<lambda>x. tx_id x \<noteq> i) (transactions db) = before @ after"
    using assms filter_neq_distinct [of tx_id before t after] by auto
  moreover have "\<exists>x \<in> set (transactions db). tx_id x = i" using a by auto
  ultimately show del: "deleteTransaction i db = (Inr True, db\<lparr>transactions := before @ after\<rparr>)"
    by (simp add: deleteTransaction_def)
  show "documents (snd (deleteTransaction i db)) = documents db"
    by (simp add: del)
  show "length (transactions (snd (deleteTransaction i db))) + 1 = length (transactions db)"
    using a by (simp add: del)
next
  assume "i \<notin> tx_id ` set (transactions db)"
  then show "deleteTransaction i db =
      (Inl (Error (''Transaction with id '' @ string_of_int i @ '' not found'')), db)"
    by (auto simp: deleteTransaction_def)
qed

lemma string_of_int_999999: "string_of_int 999999 = ''999999''"
  by (simp add: string_of_int_def string_of_nat.simps digit_char_def)

theorem deleteTransaction_removes_one_row_witness:
  "distinct (map tx_id (transactions db_tx)) \<and>
   transactions db_tx = [tx_grocery] @ tx_atm # [tx_salary] \<and> tx_id tx_atm = 2 \<and>
   deleteTransaction 2 db_tx = (Inr True, db_tx\<lparr>transactions := [tx_grocery, tx_salary]\<rparr>) \<and>
   999999 \<notin> tx_id ` set (transactions db_tx) \<and>
   deleteTransaction 999999 db_tx =
     (Inl (Error ''Transaction with id 999999 not found''), db_tx)"
proof -
  have d: "distinct (map tx_id (transactions db_tx))"
    by (simp add: db_tx_def tx_grocery_def tx_atm_def tx_salary_def)
  show ?thesis
    using deleteTransaction_removes_one_row [OF d, of "[tx_grocery]" tx_atm "[tx_salary]" 2]
      deleteTransaction_removes_one_row [OF d, of "[]" tx_atm "[]" 999999] d
    by (simp add: db_tx_def tx_grocery_def tx_atm_def tx_salary_def string_of_int_999999)
qed

subsection \<open>updateTransaction\<close>

text \<open>
  C5. The handler in the sources is a placeholder: on the example database the row with
  id 1 belongs to document 2 and was created at time 10, and an update that gives only
  a new description returns a record of document 1 created at the time of the call,
  with amount 0 and the other fields null, and leaves the table as it was. The row the
  handler's comment asks for is the second one below.
\<close>

theorem updateTransaction_placeholder:
  "select_documents 2 db_tx = [doc_empty_error] \<and>
   filter (\<lambda>t. tx_id t = 1) (transactions db_tx) = [tx_grocery] \<and>
   document_id tx_grocery = 2 \<and> created_at tx_grocery = 10 \<and>
   updateTransaction 9000 new_description db_tx =
     (\<lparr>tx_id = 1, document_id = 1, transaction_date = 9000, amount = 0,
       description = ''Corrected'', account_number = None, vendor_name = None,
       transaction_type = None, created_at = 9000\<rparr>, db_tx) \<and>
   apply_update new_description tx_grocery =
     \<lparr>tx_id = 1, document_id = 2, transaction_date = 300, amount = - 4599,
      description = ''Corrected'', account_number = Some ''1234'',
      vendor_name = Some ''Walmart'', transaction_type = Some Debit, created_at = 10\<rparr>"
  by (simp add: updateTransaction_def new_description_def apply_update_def db_tx_def
      tx_grocery_def tx_atm_def tx_salary_def or_string_def or_null_string_def or_null_def
      select_documents_def doc_statement_def doc_empty_error_def doc_error_def)

subsection \<open>Referential integrity\<close>















subsection \<open>Ordered reads\<close>










subsection \<open>searchTransactions\<close>
























end
